theory Spec2Isabelle
  imports Main
begin

section \<open>Data model\<close>

text \<open>
  The tables of \<^verbatim>\<open>models.py\<close>. A row of \<^verbatim>\<open>companies\<close> and a row of
  \<^verbatim>\<open>products\<close> are records; the columns keep their names behind a prefix.
  Text columns are strings, integer columns are Python's unbounded integers, the nullable
  \<^verbatim>\<open>website_url\<close> is an option, \<^verbatim>\<open>created_at\<close> is a clock reading.
\<close>

record company =
  c_id :: int
  c_name :: string
  c_tagline :: string
  c_description :: string
  c_industry :: string
  c_founded_year :: int
  c_employee_count :: int
  c_headquarters :: string
  c_website_url :: "string option"
  c_created_at :: nat

record product =
  p_id :: int
  p_company_id :: int
  p_name :: string
  p_description :: string
  p_target_audience :: string
  p_key_features :: string
  p_pricing_model :: string
  p_created_at :: nat

text \<open>
  The store holds both tables, each in insertion order (a new row is appended). A handler
  takes the store and gives its answer with the store after it; \<open>now\<close> is the clock
  reading that \<^verbatim>\<open>created_at\<close> defaults to. A handler that raises has committed
  nothing, so the store after it is the store before. The answer of a handler is the rows
  it returns: their serialisation through the response schemas is not part of the model.
\<close>

record store =
  companies :: "company list"
  products :: "product list"

text \<open>
  The validated payloads of \<^verbatim>\<open>schemas.py\<close>: \<^verbatim>\<open>CompanyBase\<close> (shared by
  \<^verbatim>\<open>CompanyCreate\<close> and \<^verbatim>\<open>CompanyUpdate\<close>), \<^verbatim>\<open>ProductBase\<close>
  (\<^verbatim>\<open>ProductUpdate\<close>) and \<^verbatim>\<open>ProductCreate\<close>.
\<close>

record company_base =
  b_name :: string
  b_tagline :: string
  b_description :: string
  b_industry :: string
  b_founded_year :: int
  b_employee_count :: int
  b_headquarters :: string
  b_website_url :: "string option"

record product_base =
  pb_name :: string
  pb_description :: string
  pb_target_audience :: string
  pb_key_features :: string
  pb_pricing_model :: string

record product_create = product_base +
  pc_company_id :: int

text \<open>
  A request body before validation: every key may be absent (or null), which is
  \<open>None\<close>.
\<close>

record raw_company =
  r_name :: "string option"
  r_tagline :: "string option"
  r_description :: "string option"
  r_industry :: "string option"
  r_founded_year :: "int option"
  r_employee_count :: "int option"
  r_headquarters :: "string option"
  r_website_url :: "string option"

record raw_product_create =
  rp_name :: "string option"
  rp_description :: "string option"
  rp_target_audience :: "string option"
  rp_key_features :: "string option"
  rp_pricing_model :: "string option"
  rp_company_id :: "int option"

text \<open>
  The seed document: the value of \<^verbatim>\<open>json.load\<close>. An entry of the
  \<^verbatim>\<open>companies\<close> array carries the company columns and a nested array of
  product field sets. The value read is
  \<^item> \<open>NotAnObject\<close>: an array, a string, a number, a boolean or null;
  \<^item> \<open>NonListCompanies n\<close>: an object whose \<^verbatim>\<open>companies\<close> value is not an array:
    \<open>None\<close> when that value has no length (null, a boolean, a number), \<open>Some k\<close> when it
    is a string or an object of \<open>k\<close> items;
  \<^item> \<open>Object entry\<close>: an object without the key (\<open>None\<close>), or with an array of
    entries under it.
  Reading the file gives that value, or fails: the file is missing, its text is not JSON,
  or \<^verbatim>\<open>open\<close> or \<^verbatim>\<open>json.load\<close> raises another exception, whose name is kept
  (\<^verbatim>\<open>UnicodeDecodeError\<close> for bytes that are not UTF-8, for one).
\<close>

record seed_company = company_base +
  sc_products :: "product_base list"

datatype json_top =
  NotAnObject
  | NonListCompanies "nat option"
  | Object "seed_company list option"

datatype file_read =
  FileNotFoundError
  | JSONDecodeError
  | OtherError string
  | Loaded json_top

text \<open>
  Errors are values. \<open>HTTPException\<close> is what the handlers raise themselves, with the status
  code and the detail; \<open>RequestValidationError\<close> is a body rejected by its schema, with the
  offending fields; \<open>Unhandled\<close> is any other exception that leaves the handler.
\<close>

datatype detail =
  SeedFileNotFound
  | InvalidJSON
  | PageBelowOne
  | PageSizeOutOfRange
  | CompanyNotFound int
  | CompanyNameExists string
  | CompanyDoesNotExist int
  | ProductNotFound int

datatype error =
  HTTPException nat detail
  | RequestValidationError "string list"
  | Unhandled string

record paginated_response =
  items :: "company list"
  total :: int
  page :: int
  page_size :: int

record load_data_response =
  loaded :: nat
  skipped :: nat
  total_count :: nat

section \<open>Store primitives\<close>

text \<open>
  Modelled from the spec: \<^verbatim>\<open>database.py\<close> (engine, session factory) is not among the
  sources. The spec says the id is a unique integer identifier generated by the store; the
  model takes the integer after the largest id of the table.
\<close>

definition next_id :: "int list \<Rightarrow> int" where
  "next_id ids = fold max ids 0 + 1"

text \<open>
  \<^verbatim>\<open>database.py\<close> (the engine) is not among the sources. The store is taken to bind
  an integer as a signed 64-bit value, as SQLite does: a statement given a Python integer
  outside that range raises \<^verbatim>\<open>OverflowError\<close> instead of running.
\<close>

definition INT64_MAX :: int where
  "INT64_MAX = 9223372036854775807"

definition int_fits :: "int \<Rightarrow> bool" where
  "int_fits x = (- INT64_MAX - 1 \<le> x \<and> x \<le> INT64_MAX)"

text \<open>SQL \<^verbatim>\<open>lower()\<close> on the ASCII letters.\<close>

definition lower_char :: "char \<Rightarrow> char" where
  "lower_char c =
     (let n = (of_char c :: nat) in if 65 \<le> n \<and> n \<le> 90 then char_of (n + 32) else c)"

definition lower :: "string \<Rightarrow> string" where
  "lower s = map lower_char s"

definition find_company :: "int \<Rightarrow> store \<Rightarrow> company option" where
  "find_company cid s = find (\<lambda>c. c_id c = cid) (companies s)"

definition find_product :: "int \<Rightarrow> store \<Rightarrow> product option" where
  "find_product pid s = find (\<lambda>p. p_id p = pid) (products s)"

definition find_by_name_ci :: "string \<Rightarrow> store \<Rightarrow> company option" where
  "find_by_name_ci n s = find (\<lambda>c. lower (c_name c) = lower n) (companies s)"

section \<open>Validation layer\<close>

text \<open>
  The field contracts of \<^verbatim>\<open>CompanyBase\<close>. Each check gives the accepted value, or
  \<open>None\<close> when the field is rejected; a required field that is absent is rejected.
\<close>

definition INDUSTRIES :: "string list" where
  "INDUSTRIES = [''FinTech'', ''HealthTech'', ''EdTech'', ''E-commerce'', ''SaaS'']"

definition PRICING_MODELS :: "string list" where
  "PRICING_MODELS = [''Free'', ''Freemium'', ''Subscription'', ''Enterprise'']"

definition valid_str :: "nat \<Rightarrow> nat option \<Rightarrow> string option \<Rightarrow> string option" where
  "valid_str lo hi v =
     (case v of
        None \<Rightarrow> None
      | Some x \<Rightarrow>
          if length x < lo then None
          else (case hi of
                  None \<Rightarrow> Some x
                | Some h \<Rightarrow> if length x > h then None else Some x))"

definition valid_literal :: "string list \<Rightarrow> string option \<Rightarrow> string option" where
  "valid_literal allowed v =
     (case v of None \<Rightarrow> None | Some x \<Rightarrow> if x \<in> set allowed then Some x else None)"

definition valid_int :: "(int \<Rightarrow> bool) \<Rightarrow> int option \<Rightarrow> int option" where
  "valid_int ok v = (case v of None \<Rightarrow> None | Some x \<Rightarrow> if ok x then Some x else None)"

definition valid_opt_str :: "nat \<Rightarrow> string option \<Rightarrow> string option option" where
  "valid_opt_str h v =
     (case v of None \<Rightarrow> Some None | Some x \<Rightarrow> if length x > h then None else Some (Some x))"

definition field_error :: "string \<Rightarrow> 'a option \<Rightarrow> string list" where
  "field_error f v = (case v of None \<Rightarrow> [f] | Some _ \<Rightarrow> [])"

definition company_errors :: "raw_company \<Rightarrow> string list" where
  "company_errors r =
     field_error ''name'' (valid_str 1 (Some 255) (r_name r)) @
     field_error ''tagline'' (valid_str 1 (Some 100) (r_tagline r)) @
     field_error ''description'' (valid_str 1 None (r_description r)) @
     field_error ''industry'' (valid_literal INDUSTRIES (r_industry r)) @
     field_error ''founded_year'' (valid_int (\<lambda>y. 2015 \<le> y \<and> y \<le> 2024) (r_founded_year r)) @
     field_error ''employee_count'' (valid_int (\<lambda>n. 0 < n) (r_employee_count r)) @
     field_error ''headquarters'' (valid_str 1 (Some 255) (r_headquarters r)) @
     field_error ''website_url'' (valid_opt_str 255 (r_website_url r))"

definition validate_company :: "raw_company \<Rightarrow> error + company_base" where
  "validate_company r =
     (let err = Inl (RequestValidationError (company_errors r)) in
      case valid_str 1 (Some 255) (r_name r) of None \<Rightarrow> err | Some n \<Rightarrow>
      (case valid_str 1 (Some 100) (r_tagline r) of None \<Rightarrow> err | Some t \<Rightarrow>
      (case valid_str 1 None (r_description r) of None \<Rightarrow> err | Some d \<Rightarrow>
      (case valid_literal INDUSTRIES (r_industry r) of None \<Rightarrow> err | Some i \<Rightarrow>
      (case valid_int (\<lambda>y. 2015 \<le> y \<and> y \<le> 2024) (r_founded_year r) of None \<Rightarrow> err | Some y \<Rightarrow>
      (case valid_int (\<lambda>n. 0 < n) (r_employee_count r) of None \<Rightarrow> err | Some e \<Rightarrow>
      (case valid_str 1 (Some 255) (r_headquarters r) of None \<Rightarrow> err | Some h \<Rightarrow>
      (case valid_opt_str 255 (r_website_url r) of None \<Rightarrow> err | Some w \<Rightarrow>
         Inr \<lparr>b_name = n, b_tagline = t, b_description = d, b_industry = i,
              b_founded_year = y, b_employee_count = e, b_headquarters = h,
              b_website_url = w\<rparr>))))))))"

text \<open>The same contracts read off a stored or a seed record (all keys present).\<close>

definition raw_of :: "'a company_base_scheme \<Rightarrow> raw_company" where
  "raw_of c =
     \<lparr>r_name = Some (b_name c), r_tagline = Some (b_tagline c),
      r_description = Some (b_description c), r_industry = Some (b_industry c),
      r_founded_year = Some (b_founded_year c), r_employee_count = Some (b_employee_count c),
      r_headquarters = Some (b_headquarters c), r_website_url = b_website_url c\<rparr>"

text \<open>
  \<^verbatim>\<open>ProductCreate\<close>: the field contracts of \<^verbatim>\<open>ProductBase\<close> and a
  \<^verbatim>\<open>company_id\<close> greater than 0.
\<close>

definition product_errors :: "raw_product_create \<Rightarrow> string list" where
  "product_errors r =
     field_error ''name'' (valid_str 1 (Some 255) (rp_name r)) @
     field_error ''description'' (valid_str 1 None (rp_description r)) @
     field_error ''target_audience'' (valid_str 1 (Some 255) (rp_target_audience r)) @
     field_error ''key_features'' (valid_str 1 None (rp_key_features r)) @
     field_error ''pricing_model'' (valid_literal PRICING_MODELS (rp_pricing_model r)) @
     field_error ''company_id'' (valid_int (\<lambda>i. 0 < i) (rp_company_id r))"

definition validate_product_create :: "raw_product_create \<Rightarrow> error + product_create" where
  "validate_product_create r =
     (let err = Inl (RequestValidationError (product_errors r)) in
      case valid_str 1 (Some 255) (rp_name r) of None \<Rightarrow> err | Some n \<Rightarrow>
      (case valid_str 1 None (rp_description r) of None \<Rightarrow> err | Some d \<Rightarrow>
      (case valid_str 1 (Some 255) (rp_target_audience r) of None \<Rightarrow> err | Some a \<Rightarrow>
      (case valid_str 1 None (rp_key_features r) of None \<Rightarrow> err | Some k \<Rightarrow>
      (case valid_literal PRICING_MODELS (rp_pricing_model r) of None \<Rightarrow> err | Some m \<Rightarrow>
      (case valid_int (\<lambda>i. 0 < i) (rp_company_id r) of None \<Rightarrow> err | Some i \<Rightarrow>
         Inr \<lparr>pb_name = n, pb_description = d, pb_target_audience = a,
              pb_key_features = k, pb_pricing_model = m, pc_company_id = i\<rparr>))))))"

text \<open>
  \<^verbatim>\<open>CompanyResponse\<close> puts the contracts of \<^verbatim>\<open>CompanyBase\<close> on a stored row
  (its id and created_at are of the schema's types already).
\<close>

definition row_fields :: "company \<Rightarrow> company_base" where
  "row_fields r =
     \<lparr>b_name = c_name r, b_tagline = c_tagline r, b_description = c_description r,
      b_industry = c_industry r, b_founded_year = c_founded_year r,
      b_employee_count = c_employee_count r, b_headquarters = c_headquarters r,
      b_website_url = c_website_url r\<rparr>"

definition response_ok :: "company \<Rightarrow> bool" where
  "response_ok r =
     (case validate_company (raw_of (row_fields r)) of Inl e \<Rightarrow> False | Inr c \<Rightarrow> True)"

section \<open>Pagination\<close>

text \<open>
  \<^verbatim>\<open>get_companies\<close>: the two guards, the count, the query with offset and limit
  (which binds the offset), and the \<^verbatim>\<open>PaginatedResponse\<close> the handler builds from
  the rows, which validates each of them as a \<^verbatim>\<open>CompanyResponse\<close>.
\<close>

definition get_companies :: "int \<Rightarrow> int \<Rightarrow> store \<Rightarrow> error + nat \<times> paginated_response" where
  "get_companies pg psz s =
     (if pg < 1 then Inl (HTTPException 400 PageBelowOne)
      else if psz < 1 \<or> psz > 100 then Inl (HTTPException 400 PageSizeOutOfRange)
      else
        let tot = int (length (companies s));
            skip = (pg - 1) * psz
        in if \<not> int_fits skip then Inl (Unhandled ''OverflowError'')
           else
             let cs = take (nat psz) (drop (nat skip) (companies s))
             in if list_all response_ok cs
                then Inr (200, \<lparr>items = cs, total = tot, page = pg, page_size = psz\<rparr>)
                else Inl (Unhandled ''ValidationError''))"

section \<open>Company endpoints\<close>

text \<open>
  \<^verbatim>\<open>db.add\<close> followed by the INSERT of the flush or commit. The column
  \<^verbatim>\<open>name\<close> is declared \<^verbatim>\<open>unique=True\<close>: an equal name makes the INSERT fail.
\<close>

definition insert_company :: "nat \<Rightarrow> 'a company_base_scheme \<Rightarrow> store \<Rightarrow> error + company \<times> store" where
  "insert_company now c s =
     (if b_name c \<in> set (map c_name (companies s)) then Inl (Unhandled ''IntegrityError'')
      else
        let row = \<lparr>c_id = next_id (map c_id (companies s)), c_name = b_name c,
                   c_tagline = b_tagline c, c_description = b_description c,
                   c_industry = b_industry c, c_founded_year = b_founded_year c,
                   c_employee_count = b_employee_count c, c_headquarters = b_headquarters c,
                   c_website_url = b_website_url c, c_created_at = now\<rparr>
        in Inr (row, s\<lparr>companies := companies s @ [row]\<rparr>))"

definition add_product :: "nat \<Rightarrow> int \<Rightarrow> 'a product_base_scheme \<Rightarrow> store \<Rightarrow> store" where
  "add_product now cid pd s =
     s\<lparr>products := products s @
         [\<lparr>p_id = next_id (map p_id (products s)), p_company_id = cid, p_name = pb_name pd,
           p_description = pb_description pd, p_target_audience = pb_target_audience pd,
           p_key_features = pb_key_features pd, p_pricing_model = pb_pricing_model pd,
           p_created_at = now\<rparr>]\<rparr>"

definition get_company :: "int \<Rightarrow> store \<Rightarrow> error + nat \<times> company \<times> product list" where
  "get_company cid s =
     (case find_company cid s of
        None \<Rightarrow> Inl (HTTPException 404 (CompanyNotFound cid))
      | Some c \<Rightarrow> Inr (200, c, filter (\<lambda>p. p_company_id p = c_id c) (products s)))"

text \<open>
  \<^verbatim>\<open>create_company\<close>: the lookup by lower-cased name, then the INSERT of the
  commit, which binds the two integer columns of the body.
\<close>

definition create_company :: "nat \<Rightarrow> company_base \<Rightarrow> store \<Rightarrow> (error + nat \<times> company) \<times> store" where
  "create_company now c s =
     (case find_by_name_ci (b_name c) s of
        Some existing \<Rightarrow> (Inl (HTTPException 400 (CompanyNameExists (b_name c))), s)
      | None \<Rightarrow>
          if \<not> (int_fits (b_founded_year c) \<and> int_fits (b_employee_count c))
          then (Inl (Unhandled ''OverflowError''), s)
          else
            (case insert_company now c s of
               Inl e \<Rightarrow> (Inl e, s)
             | Inr (row, s') \<Rightarrow> (Inr (201, row), s')))"

text \<open>The loop \<^verbatim>\<open>for key, value in company.model_dump().items(): setattr(...)\<close>.\<close>

definition set_fields :: "company_base \<Rightarrow> company \<Rightarrow> company" where
  "set_fields c r =
     r\<lparr>c_name := b_name c, c_tagline := b_tagline c, c_description := b_description c,
       c_industry := b_industry c, c_founded_year := b_founded_year c,
       c_employee_count := b_employee_count c, c_headquarters := b_headquarters c,
       c_website_url := b_website_url c\<rparr>"

definition update_company :: "int \<Rightarrow> company_base \<Rightarrow> store \<Rightarrow> (error + nat \<times> company) \<times> store" where
  "update_company cid c s =
     (case find_company cid s of
        None \<Rightarrow> (Inl (HTTPException 404 (CompanyNotFound cid)), s)
      | Some db_company \<Rightarrow>
          if b_name c \<noteq> c_name db_company \<and> find_by_name_ci (b_name c) s \<noteq> None
          then (Inl (HTTPException 400 (CompanyNameExists (b_name c))), s)
          else if b_name c \<in> set (map c_name (filter (\<lambda>r. c_id r \<noteq> cid) (companies s)))
          then (Inl (Unhandled ''IntegrityError''), s)
          else (Inr (200, set_fields c db_company),
                s\<lparr>companies :=
                    map (\<lambda>r. if c_id r = cid then set_fields c r else r) (companies s)\<rparr>))"

text \<open>
  \<^verbatim>\<open>db.delete(db_company)\<close> with the relationship's \<^verbatim>\<open>cascade="all, delete-orphan"\<close>:
  the products of the relationship are loaded and each is deleted by its primary key, then
  the company row is.
\<close>

definition delete_company :: "int \<Rightarrow> store \<Rightarrow> (error + nat) \<times> store" where
  "delete_company cid s =
     (case find_company cid s of
        None \<Rightarrow> (Inl (HTTPException 404 (CompanyNotFound cid)), s)
      | Some db_company \<Rightarrow>
          let owned = filter (\<lambda>p. p_company_id p = c_id db_company) (products s);
              pids = map p_id owned
          in (Inr 204,
              s\<lparr>companies := filter (\<lambda>r. c_id r \<noteq> c_id db_company) (companies s),
                products := filter (\<lambda>p. p_id p \<notin> set pids) (products s)\<rparr>))"

text \<open>
  The endpoints as the framework runs them: the body is checked against its schema, and
  only an accepted body reaches the handler.
\<close>

definition post_companies :: "nat \<Rightarrow> raw_company \<Rightarrow> store \<Rightarrow> (error + nat \<times> company) \<times> store" where
  "post_companies now r s =
     (case validate_company r of Inl e \<Rightarrow> (Inl e, s) | Inr c \<Rightarrow> create_company now c s)"

definition put_company :: "int \<Rightarrow> raw_company \<Rightarrow> store \<Rightarrow> (error + nat \<times> company) \<times> store" where
  "put_company cid r s =
     (case validate_company r of Inl e \<Rightarrow> (Inl e, s) | Inr c \<Rightarrow> update_company cid c s)"

section \<open>Product endpoints\<close>

definition get_products :: "store \<Rightarrow> error + nat \<times> product list" where
  "get_products s = Inr (200, products s)"

definition get_product :: "int \<Rightarrow> store \<Rightarrow> error + nat \<times> product" where
  "get_product pid s =
     (case find_product pid s of
        None \<Rightarrow> Inl (HTTPException 404 (ProductNotFound pid))
      | Some p \<Rightarrow> Inr (200, p))"

text \<open>
  \<^verbatim>\<open>create_product\<close>: the lookup of the company binds the body's
  \<^verbatim>\<open>company_id\<close>.
\<close>

definition create_product :: "nat \<Rightarrow> product_create \<Rightarrow> store \<Rightarrow> (error + nat \<times> product) \<times> store" where
  "create_product now pc s =
     (if \<not> int_fits (pc_company_id pc) then (Inl (Unhandled ''OverflowError''), s)
      else
        case find_company (pc_company_id pc) s of
          None \<Rightarrow> (Inl (HTTPException 400 (CompanyDoesNotExist (pc_company_id pc))), s)
        | Some c \<Rightarrow>
            let s' = add_product now (pc_company_id pc) pc s
            in (Inr (201, last (products s')), s'))"

definition post_products :: "nat \<Rightarrow> raw_product_create \<Rightarrow> store \<Rightarrow> (error + nat \<times> product) \<times> store" where
  "post_products now r s =
     (case validate_product_create r of
        Inl e \<Rightarrow> (Inl e, s)
      | Inr pc \<Rightarrow> create_product now pc s)"

definition set_product_fields :: "product_base \<Rightarrow> product \<Rightarrow> product" where
  "set_product_fields pb r =
     r\<lparr>p_name := pb_name pb, p_description := pb_description pb,
       p_target_audience := pb_target_audience pb, p_key_features := pb_key_features pb,
       p_pricing_model := pb_pricing_model pb\<rparr>"

definition update_product :: "int \<Rightarrow> product_base \<Rightarrow> store \<Rightarrow> (error + nat \<times> product) \<times> store" where
  "update_product pid pb s =
     (case find_product pid s of
        None \<Rightarrow> (Inl (HTTPException 404 (ProductNotFound pid)), s)
      | Some db_product \<Rightarrow>
          (Inr (200, set_product_fields pb db_product),
           s\<lparr>products :=
               map (\<lambda>r. if p_id r = pid then set_product_fields pb r else r) (products s)\<rparr>))"

definition delete_product :: "int \<Rightarrow> store \<Rightarrow> (error + nat) \<times> store" where
  "delete_product pid s =
     (case find_product pid s of
        None \<Rightarrow> (Inl (HTTPException 404 (ProductNotFound pid)), s)
      | Some db_product \<Rightarrow>
          (Inr 204, s\<lparr>products := filter (\<lambda>p. p_id p \<noteq> pid) (products s)\<rparr>))"

section \<open>Bulk loader\<close>

text \<open>
  The body of the \<^verbatim>\<open>for\<close> loop of \<^verbatim>\<open>load_data_from_json\<close>, by recursion on the
  remaining entries, with the two counters. A company is flushed as soon as it is added, so
  the lookup of a later entry sees it. Its products are written later, in the order in
  which they were added, which is the order the model appends them in. An exception leaves
  the loop with nothing committed. An entry is taken with every key present and of the
  type of its column, integers within the store's range: \<^verbatim>\<open>company_data["name"]\<close>,
  the two constructors and the flush do not raise.
\<close>

fun load_loop :: "nat \<Rightarrow> seed_company list \<Rightarrow> store \<Rightarrow> nat \<Rightarrow> nat \<Rightarrow> error + store \<times> nat \<times> nat" where
  "load_loop now [] s loaded_count skipped_count = Inr (s, loaded_count, skipped_count)"
| "load_loop now (company_data # rest) s loaded_count skipped_count =
     (case find_by_name_ci (b_name company_data) s of
        Some existing_company \<Rightarrow> load_loop now rest s loaded_count (skipped_count + 1)
      | None \<Rightarrow>
          (case insert_company now company_data s of
             Inl e \<Rightarrow> Inl e
           | Inr (row, s1) \<Rightarrow>
               load_loop now rest
                 (fold (add_product now (c_id row)) (sc_products company_data) s1)
                 (loaded_count + 1) skipped_count))"

definition load_data_from_json :: "nat \<Rightarrow> file_read \<Rightarrow> store \<Rightarrow> (error + nat \<times> load_data_response) \<times> store" where
  "load_data_from_json now f s =
     (case f of
        FileNotFoundError \<Rightarrow> (Inl (HTTPException 404 SeedFileNotFound), s)
      | JSONDecodeError \<Rightarrow> (Inl (HTTPException 400 InvalidJSON), s)
      | OtherError name \<Rightarrow> (Inl (Unhandled name), s)
      | Loaded NotAnObject \<Rightarrow> (Inl (Unhandled ''AttributeError''), s)
      | Loaded (NonListCompanies None) \<Rightarrow> (Inl (Unhandled ''TypeError''), s)
      | Loaded (NonListCompanies (Some 0)) \<Rightarrow>
          (Inr (200, \<lparr>loaded = 0, skipped = 0, total_count = 0\<rparr>), s)
      | Loaded (NonListCompanies (Some (Suc k))) \<Rightarrow> (Inl (Unhandled ''TypeError''), s)
      | Loaded (Object entry) \<Rightarrow>
          let companies_data = (case entry of None \<Rightarrow> [] | Some cs \<Rightarrow> cs)
          in (case load_loop now companies_data s 0 0 of
                Inl e \<Rightarrow> (Inl e, s)
              | Inr (s', l, k) \<Rightarrow>
                  (Inr (200, \<lparr>loaded = l, skipped = k, total_count = length companies_data\<rparr>),
                   s')))"

section \<open>The service as a transition system\<close>

datatype request =
  LoadData file_read
  | ListCompanies int int
  | GetCompany int
  | CreateCompany company_base
  | UpdateCompany int company_base
  | DeleteCompany int
  | ListProducts
  | GetProduct int
  | CreateProduct product_create
  | UpdateProduct int product_base
  | DeleteProduct int

text \<open>The store after a request that arrives when the clock reads \<open>now\<close>.\<close>

fun apply_request :: "nat \<Rightarrow> request \<Rightarrow> store \<Rightarrow> store" where
  "apply_request now (LoadData f) s = snd (load_data_from_json now f s)"
| "apply_request now (ListCompanies pg psz) s = s"
| "apply_request now (GetCompany cid) s = s"
| "apply_request now (CreateCompany c) s = snd (create_company now c s)"
| "apply_request now (UpdateCompany cid c) s = snd (update_company cid c s)"
| "apply_request now (DeleteCompany cid) s = snd (delete_company cid s)"
| "apply_request now ListProducts s = s"
| "apply_request now (GetProduct pid) s = s"
| "apply_request now (CreateProduct pc) s = snd (create_product now pc s)"
| "apply_request now (UpdateProduct pid pb) s = snd (update_product pid pb s)"
| "apply_request now (DeleteProduct pid) s = snd (delete_product pid s)"

fun run :: "(nat \<times> request) list \<Rightarrow> store \<Rightarrow> store" where
  "run [] s = s"
| "run ((now, req) # rest) s = run rest (apply_request now req s)"

definition empty_store :: store where
  "empty_store = \<lparr>companies = [], products = []\<rparr>"

definition no_orphans :: "store \<Rightarrow> bool" where
  "no_orphans s = (\<forall>p \<in> set (products s). p_company_id p \<in> set (map c_id (companies s)))"

section \<open>Projections used in the statements\<close>


definition product_fields :: "product \<Rightarrow> product_base" where
  "product_fields p =
     \<lparr>pb_name = p_name p, pb_description = p_description p,
      pb_target_audience = p_target_audience p, pb_key_features = p_key_features p,
      pb_pricing_model = p_pricing_model p\<rparr>"



section \<open>Sample data\<close>

text \<open>Concrete payloads, rows and stores on which the theorems are instantiated.\<close>

definition acme :: company_base where
  "acme =
     \<lparr>b_name = ''Acme'', b_tagline = ''Rockets'', b_description = ''Builds rockets'',
      b_industry = ''SaaS'', b_founded_year = 2020, b_employee_count = 12,
      b_headquarters = ''Pune, India'', b_website_url = Some ''www.acme.example''\<rparr>"

definition acme_row :: company where
  "acme_row =
     \<lparr>c_id = 1, c_name = ''Acme'', c_tagline = ''Rockets'', c_description = ''Builds rockets'',
      c_industry = ''SaaS'', c_founded_year = 2020, c_employee_count = 12,
      c_headquarters = ''Pune, India'', c_website_url = Some ''www.acme.example'',
      c_created_at = 5\<rparr>"

definition widget :: product_base where
  "widget =
     \<lparr>pb_name = ''Widget'', pb_description = ''A widget'', pb_target_audience = ''Engineers'',
      pb_key_features = ''Fast'', pb_pricing_model = ''Free''\<rparr>"

definition widget_row :: product where
  "widget_row =
     \<lparr>p_id = 1, p_company_id = 1, p_name = ''Widget'', p_description = ''A widget'',
      p_target_audience = ''Engineers'', p_key_features = ''Fast'', p_pricing_model = ''Free'',
      p_created_at = 6\<rparr>"

definition acme_store :: store where
  "acme_store = \<lparr>companies = [acme_row], products = [widget_row]\<rparr>"

definition crypto_entry :: seed_company where
  "crypto_entry =
     \<lparr>b_name = ''Bolt'', b_tagline = ''Coins'', b_description = ''Mints coins'',
      b_industry = ''Crypto'', b_founded_year = 2021, b_employee_count = 3,
      b_headquarters = ''Oslo, Norway'', b_website_url = None,
      sc_products =
        [\<lparr>pb_name = ''Mint'', pb_description = ''A mint'', pb_target_audience = ''Traders'',
          pb_key_features = ''Shiny'', pb_pricing_model = ''Barter''\<rparr>]\<rparr>"


definition bolt :: company_base where
  "bolt =
     \<lparr>b_name = ''Bolt'', b_tagline = ''Fast bolts'', b_description = ''Sells bolts'',
      b_industry = ''FinTech'', b_founded_year = 2019, b_employee_count = 40,
      b_headquarters = ''Lima, Peru'', b_website_url = None\<rparr>"

definition widget_body :: "int \<Rightarrow> raw_product_create" where
  "widget_body cid =
     \<lparr>rp_name = Some ''Widget'', rp_description = Some ''A widget'',
      rp_target_audience = Some ''Engineers'', rp_key_features = Some ''Fast'',
      rp_pricing_model = Some ''Free'', rp_company_id = Some cid\<rparr>"

section \<open>Auxiliary facts\<close>

lemma fold_max_ge: "(a::int) \<le> fold max ids a"
proof (induction ids arbitrary: a)
  case Nil
  then show ?case by simp
next
  case (Cons y ys)
  have "a \<le> max y a" by simp
  also have "max y a \<le> fold max ys (max y a)" by (rule Cons.IH)
  finally show ?case by simp
qed

lemma fold_max_mem: "x \<in> set ids \<Longrightarrow> (x::int) \<le> fold max ids a"
proof (induction ids arbitrary: a)
  case Nil
  then show ?case by simp
next
  case (Cons y ys)
  show ?case
  proof (cases "x = y")
    case True
    have "max y a \<le> fold max ys (max y a)" by (rule fold_max_ge)
    then show ?thesis using True by simp
  next
    case False
    then show ?thesis using Cons by simp
  qed
qed

lemma next_id_fresh: "next_id ids \<notin> set ids"
  using fold_max_mem[of "next_id ids" ids 0] by (auto simp: next_id_def)

lemma find_app:
  "find P (xs @ ys) = (case find P xs of None \<Rightarrow> find P ys | Some x \<Rightarrow> Some x)"
  by (induction xs) auto

lemma find_by_name_ci_None:
  "find_by_name_ci n s = None \<longleftrightarrow> (\<forall>r \<in> set (companies s). lower (c_name r) \<noteq> lower n)"
  by (auto simp: find_by_name_ci_def find_None_iff)

lemma find_company_None:
  "find_company cid s = None \<longleftrightarrow> cid \<notin> set (map c_id (companies s))"
  by (auto simp: find_company_def find_None_iff)

lemma find_product_None:
  "find_product pid s = None \<longleftrightarrow> pid \<notin> set (map p_id (products s))"
  by (auto simp: find_product_def find_None_iff)

lemma find_company_Some:
  "find_company cid s = Some r \<Longrightarrow> r \<in> set (companies s) \<and> c_id r = cid"
  by (auto simp: find_company_def find_Some_iff)

lemma insert_company_ok:
  assumes "find_by_name_ci (b_name c) s = None"
  shows "insert_company now c s =
     Inr (\<lparr>c_id = next_id (map c_id (companies s)), c_name = b_name c,
            c_tagline = b_tagline c, c_description = b_description c,
            c_industry = b_industry c, c_founded_year = b_founded_year c,
            c_employee_count = b_employee_count c, c_headquarters = b_headquarters c,
            c_website_url = b_website_url c, c_created_at = now\<rparr>,
          s\<lparr>companies := companies s @
            [\<lparr>c_id = next_id (map c_id (companies s)), c_name = b_name c,
              c_tagline = b_tagline c, c_description = b_description c,
              c_industry = b_industry c, c_founded_year = b_founded_year c,
              c_employee_count = b_employee_count c, c_headquarters = b_headquarters c,
              c_website_url = b_website_url c, c_created_at = now\<rparr>]\<rparr>)"
proof -
  have "b_name c \<notin> set (map c_name (companies s))"
    using assms by (auto simp: find_by_name_ci_None)
  then show ?thesis by (simp add: insert_company_def Let_def)
qed

lemma lower_samples:
  "lower ''ACME'' = ''acme''" "lower ''Acme'' = ''acme''" "lower ''acme'' = ''acme''"
  "lower ''Bolt'' = ''bolt''"
  by code_simp+

section \<open>Pagination: bounds and window\<close>

text \<open>
  C9. A request with \<open>page < 1\<close>, or with \<open>page_size < 1\<close> or \<open>page_size > 100\<close>, fails with
  an HTTP 400 error, and the answer does not depend on the store (no query is made):
  it is the same for any two stores.
\<close>

theorem get_companies_rejects_out_of_bounds:
  assumes "pg < 1 \<or> psz < 1 \<or> psz > 100"
  shows "\<exists>d. get_companies pg psz s = Inl (HTTPException 400 d)
           \<and> get_companies pg psz s' = get_companies pg psz s"
  using assms by (auto simp: get_companies_def)

theorem get_companies_rejects_out_of_bounds_witness:
  "get_companies 1 0 empty_store = Inl (HTTPException 400 PageSizeOutOfRange)
   \<and> get_companies 1 101 empty_store = Inl (HTTPException 400 PageSizeOutOfRange)
   \<and> get_companies 0 10 empty_store = Inl (HTTPException 400 PageBelowOne)"
  using get_companies_rejects_out_of_bounds [of 1 0 empty_store empty_store]
    get_companies_rejects_out_of_bounds [of 1 101 empty_store empty_store]
    get_companies_rejects_out_of_bounds [of 0 10 empty_store empty_store]
  by (simp add: get_companies_def)

text \<open>
  C2, as stated, fails at two inputs. On the store left by loading an entry whose industry
  is outside the closed set, page 1 is no list of companies: building the
  \<^verbatim>\<open>PaginatedResponse\<close> raises. And a page so far out that the offset is beyond the
  store's integers is an error, not an empty list.
\<close>

theorem get_companies_window_counterexample:
  "get_companies 1 10
      (snd (load_data_from_json 3 (Loaded (Object (Some [crypto_entry]))) empty_store))
     = Inl (Unhandled ''ValidationError'')
   \<and> get_companies 9223372036854775809 1 acme_store = Inl (Unhandled ''OverflowError'')"
  by (simp add: get_companies_def load_data_from_json_def find_by_name_ci_def
      insert_company_def add_product_def next_id_def empty_store_def crypto_entry_def
      acme_store_def int_fits_def INT64_MAX_def response_ok_def validate_company_def
      raw_of_def row_fields_def valid_str_def valid_literal_def valid_int_def
      valid_opt_str_def INDUSTRIES_def Let_def)

text \<open>
  C2, amended. For a page of at least 1 and a page size in 1..100 whose offset
  \<open>(page - 1) * page_size\<close> the store can bind, and a table whose companies in the
  requested window satisfy the response contract, the answer is 200 with the window of at
  most \<open>page_size\<close> companies that starts at that offset of the table, in table order;
  \<open>total\<close> is the length of the whole table whatever the page; a page beyond the data
  gives an empty list with the same total and no error.
\<close>

theorem get_companies_window:
  assumes "1 \<le> pg" and "1 \<le> psz" and "psz \<le> 100"
    and "int_fits ((pg - 1) * psz)"
    and "list_all response_ok (take (nat psz) (drop (nat ((pg - 1) * psz)) (companies s)))"
  shows "\<exists>r. get_companies pg psz s = Inr (200, r)
     \<and> length (items r) = min (nat psz) (length (companies s) - nat ((pg - 1) * psz))
     \<and> (\<forall>i < length (items r). items r ! i = companies s ! (nat ((pg - 1) * psz) + i))
     \<and> total r = int (length (companies s))
     \<and> page r = pg \<and> page_size r = psz
     \<and> (length (companies s) \<le> nat ((pg - 1) * psz) \<longrightarrow> items r = [])"
  using assms by (auto simp: get_companies_def Let_def)

theorem get_companies_window_witness:
  "get_companies 1 10 acme_store
     = Inr (200, \<lparr>items = [acme_row], total = 1, page = 1, page_size = 10\<rparr>)
   \<and> get_companies 3 10 acme_store
     = Inr (200, \<lparr>items = [], total = 1, page = 3, page_size = 10\<rparr>)"
proof -
  have ok: "response_ok acme_row"
    by (simp add: response_ok_def validate_company_def raw_of_def row_fields_def acme_row_def
        valid_str_def valid_literal_def valid_int_def valid_opt_str_def INDUSTRIES_def)
  have fits: "int_fits ((1 - 1) * 10)" "int_fits ((3 - 1) * 10)"
    by (simp_all add: int_fits_def INT64_MAX_def)
  have w1: "list_all response_ok
      (take (nat 10) (drop (nat ((1 - 1) * 10)) (companies acme_store)))"
    using ok by (simp add: acme_store_def)
  have w3: "list_all response_ok
      (take (nat 10) (drop (nat ((3 - 1) * 10)) (companies acme_store)))"
    by (simp add: acme_store_def)
  have e1: "get_companies 1 10 acme_store
     = Inr (200, \<lparr>items = [acme_row], total = 1, page = 1, page_size = 10\<rparr>)"
    using ok by (simp add: get_companies_def acme_store_def int_fits_def INT64_MAX_def)
  have e3: "get_companies 3 10 acme_store
     = Inr (200, \<lparr>items = [], total = 1, page = 3, page_size = 10\<rparr>)"
    by (simp add: get_companies_def acme_store_def int_fits_def INT64_MAX_def)
  have p: "(1::int) \<le> 1" "(1::int) \<le> 10" "(10::int) \<le> 100" "(1::int) \<le> 3"
    by simp_all
  from get_companies_window [OF p(1) p(2) p(3) fits(1) w1]
  obtain r1 where r1: "get_companies 1 10 acme_store = Inr (200, r1)"
    by blast
  from get_companies_window [OF p(4) p(2) p(3) fits(2) w3]
  obtain r3 where r3: "get_companies 3 10 acme_store = Inr (200, r3)"
    by blast
  from r1 r3 e1 e3 show ?thesis by simp
qed

section \<open>Creating a company\<close>

lemma validate_company_ranges:
  assumes "validate_company r = Inr c"
  shows "2015 \<le> b_founded_year c \<and> b_founded_year c \<le> 2024 \<and> 0 < b_employee_count c"
  using assms
  by (auto simp: validate_company_def valid_str_def valid_literal_def valid_int_def
      valid_opt_str_def Let_def split: option.splits if_splits)

text \<open>
  C5, as stated, fails: a schema-valid body whose name collides with no stored company but
  whose \<open>employee_count\<close> is 2^63 is not created. The schema puts no upper bound on the
  field, the Integer column cannot hold the value, and the INSERT raises.
\<close>

theorem post_companies_counterexample:
  "validate_company (raw_of (bolt\<lparr>b_employee_count := 9223372036854775808\<rparr>))
     = Inr (bolt\<lparr>b_employee_count := 9223372036854775808\<rparr>)
   \<and> find_by_name_ci ''Bolt'' acme_store = None
   \<and> post_companies 9 (raw_of (bolt\<lparr>b_employee_count := 9223372036854775808\<rparr>)) acme_store
     = (Inl (Unhandled ''OverflowError''), acme_store)"
proof -
  have v: "validate_company (raw_of (bolt\<lparr>b_employee_count := 9223372036854775808\<rparr>))
     = Inr (bolt\<lparr>b_employee_count := 9223372036854775808\<rparr>)"
    by (simp add: validate_company_def raw_of_def bolt_def valid_str_def valid_literal_def
        valid_int_def valid_opt_str_def INDUSTRIES_def)
  have n: "find_by_name_ci ''Bolt'' acme_store = None"
    by (simp add: find_by_name_ci_def acme_store_def acme_row_def lower_samples)
  have c: "create_company 9 (bolt\<lparr>b_employee_count := 9223372036854775808\<rparr>) acme_store
     = (Inl (Unhandled ''OverflowError''), acme_store)"
    using n by (simp add: create_company_def bolt_def int_fits_def INT64_MAX_def)
  have "post_companies 9 (raw_of (bolt\<lparr>b_employee_count := 9223372036854775808\<rparr>)) acme_store
     = (Inl (Unhandled ''OverflowError''), acme_store)"
    unfolding post_companies_def v using c by simp
  with v n show ?thesis by simp
qed

text \<open>
  C5, amended. For a schema-valid create request: when some stored company has a name
  equal to the request's name under case-insensitive comparison, POST /companies fails with
  HTTP 400 (duplicate name) and the store is unchanged. When no stored company has such a
  name and the store can hold the request's \<open>employee_count\<close> (at most 2^63 - 1), it
  succeeds with 201, the store gains exactly the returned row at the end of the table, the
  row carries the request's fields, the clock reading and an id no stored company has, and
  a later \<open>get_company\<close> on that id returns the row.
\<close>

theorem post_companies_conflict_or_created:
  assumes "validate_company r = Inr c"
  shows "((\<exists>row \<in> set (companies s). lower (c_name row) = lower (b_name c)) \<longrightarrow>
      post_companies now r s = (Inl (HTTPException 400 (CompanyNameExists (b_name c))), s))
   \<and> ((\<forall>row \<in> set (companies s). lower (c_name row) \<noteq> lower (b_name c))
        \<and> int_fits (b_employee_count c) \<longrightarrow>
      (\<exists>row. post_companies now r s = (Inr (201, row), s\<lparr>companies := companies s @ [row]\<rparr>)
         \<and> row_fields row = c \<and> c_created_at row = now
         \<and> c_id row \<notin> set (map c_id (companies s))
         \<and> get_company (c_id row) (snd (post_companies now r s))
             = Inr (200, row, filter (\<lambda>p. p_company_id p = c_id row) (products s))))"
proof (intro conjI impI)
  have p: "post_companies now r s = create_company now c s"
    by (simp add: post_companies_def assms)
  {
    assume "\<exists>row \<in> set (companies s). lower (c_name row) = lower (b_name c)"
    then have "find_by_name_ci (b_name c) s \<noteq> None"
      by (simp add: find_by_name_ci_None)
    then show "post_companies now r s
        = (Inl (HTTPException 400 (CompanyNameExists (b_name c))), s)"
      unfolding p by (auto simp: create_company_def)
  }
  {
    assume a: "(\<forall>row \<in> set (companies s). lower (c_name row) \<noteq> lower (b_name c))
        \<and> int_fits (b_employee_count c)"
    then have n: "find_by_name_ci (b_name c) s = None"
      by (simp add: find_by_name_ci_None)
    have y: "int_fits (b_founded_year c)"
      using validate_company_ranges[OF assms] by (simp add: int_fits_def INT64_MAX_def)
    have fresh: "next_id (map c_id (companies s)) \<notin> set (map c_id (companies s))"
      by (rule next_id_fresh)
    then have nf: "find (\<lambda>r. c_id r = next_id (map c_id (companies s))) (companies s) = None"
      by (force simp: find_None_iff)
    show "\<exists>row. post_companies now r s = (Inr (201, row), s\<lparr>companies := companies s @ [row]\<rparr>)
         \<and> row_fields row = c \<and> c_created_at row = now
         \<and> c_id row \<notin> set (map c_id (companies s))
         \<and> get_company (c_id row) (snd (post_companies now r s))
             = Inr (200, row, filter (\<lambda>p. p_company_id p = c_id row) (products s))"
      unfolding p using fresh nf a y
      by (simp add: create_company_def n insert_company_ok[OF n] row_fields_def
          get_company_def find_company_def find_app)
  }
qed

theorem post_companies_conflict_or_created_witness:
  "post_companies 9 (raw_of (acme\<lparr>b_name := ''ACME''\<rparr>)) acme_store
     = (Inl (HTTPException 400 (CompanyNameExists ''ACME'')), acme_store)
   \<and> post_companies 9 (raw_of bolt) acme_store
     = (Inr (201,
          \<lparr>c_id = 2, c_name = ''Bolt'', c_tagline = ''Fast bolts'',
           c_description = ''Sells bolts'', c_industry = ''FinTech'', c_founded_year = 2019,
           c_employee_count = 40, c_headquarters = ''Lima, Peru'', c_website_url = None,
           c_created_at = 9\<rparr>),
        \<lparr>companies =
           [acme_row,
            \<lparr>c_id = 2, c_name = ''Bolt'', c_tagline = ''Fast bolts'',
             c_description = ''Sells bolts'', c_industry = ''FinTech'', c_founded_year = 2019,
             c_employee_count = 40, c_headquarters = ''Lima, Peru'', c_website_url = None,
             c_created_at = 9\<rparr>],
         products = [widget_row]\<rparr>)"
proof -
  have v1: "validate_company (raw_of (acme\<lparr>b_name := ''ACME''\<rparr>)) = Inr (acme\<lparr>b_name := ''ACME''\<rparr>)"
    by (simp add: validate_company_def raw_of_def acme_def valid_str_def valid_literal_def
        valid_int_def valid_opt_str_def INDUSTRIES_def)
  have v2: "validate_company (raw_of bolt) = Inr bolt"
    by (simp add: validate_company_def raw_of_def bolt_def valid_str_def valid_literal_def
        valid_int_def valid_opt_str_def INDUSTRIES_def)
  have f: "int_fits (b_employee_count bolt)"
    by (simp add: bolt_def int_fits_def INT64_MAX_def)
  have i: "next_id [1] = 2"
    by (simp add: next_id_def)
  have col: "\<exists>row \<in> set (companies acme_store).
      lower (c_name row) = lower (b_name (acme\<lparr>b_name := ''ACME''\<rparr>))"
    by (simp add: acme_store_def acme_row_def lower_samples)
  have nocol: "(\<forall>row \<in> set (companies acme_store). lower (c_name row) \<noteq> lower (b_name bolt))
      \<and> int_fits (b_employee_count bolt)"
    using f by (simp add: acme_store_def acme_row_def bolt_def lower_samples)
  from post_companies_conflict_or_created [OF v1, of acme_store 9] col
  have e1: "post_companies 9 (raw_of (acme\<lparr>b_name := ''ACME''\<rparr>)) acme_store
     = (Inl (HTTPException 400 (CompanyNameExists ''ACME'')), acme_store)"
    by simp
  from post_companies_conflict_or_created [OF v2, of acme_store 9] nocol
  obtain row where r: "post_companies 9 (raw_of bolt) acme_store
        = (Inr (201, row), acme_store\<lparr>companies := companies acme_store @ [row]\<rparr>)"
    by blast
  have c: "create_company 9 bolt acme_store
     = (Inr (201,
          \<lparr>c_id = 2, c_name = ''Bolt'', c_tagline = ''Fast bolts'',
           c_description = ''Sells bolts'', c_industry = ''FinTech'', c_founded_year = 2019,
           c_employee_count = 40, c_headquarters = ''Lima, Peru'', c_website_url = None,
           c_created_at = 9\<rparr>),
        \<lparr>companies =
           [acme_row,
            \<lparr>c_id = 2, c_name = ''Bolt'', c_tagline = ''Fast bolts'',
             c_description = ''Sells bolts'', c_industry = ''FinTech'', c_founded_year = 2019,
             c_employee_count = 40, c_headquarters = ''Lima, Peru'', c_website_url = None,
             c_created_at = 9\<rparr>],
         products = [widget_row]\<rparr>)"
    using i by (simp add: create_company_def find_by_name_ci_def insert_company_def
        acme_store_def acme_row_def bolt_def lower_samples int_fits_def INT64_MAX_def Let_def)
  have "post_companies 9 (raw_of bolt) acme_store = create_company 9 bolt acme_store"
    unfolding post_companies_def v2 by simp
  with c r e1 show ?thesis by simp
qed

section \<open>Creating a product\<close>

lemma validate_product_create_Inr:
  assumes "validate_product_create r = Inr pc"
  shows "0 < pc_company_id pc \<and> rp_company_id r = Some (pc_company_id pc)
       \<and> rp_name r = Some (pb_name pc) \<and> rp_description r = Some (pb_description pc)
       \<and> rp_target_audience r = Some (pb_target_audience pc)
       \<and> rp_key_features r = Some (pb_key_features pc)
       \<and> rp_pricing_model r = Some (pb_pricing_model pc)"
  using assms
  by (auto simp: validate_product_create_def valid_str_def valid_literal_def valid_int_def
      Let_def split: option.splits if_splits)

text \<open>
  C8, as stated, fails: a schema-valid body whose \<open>company_id\<close> is 2^63 refers to no
  stored company, yet the answer is not a 400. The schema asks only for a \<open>company_id\<close>
  above 0, and the lookup of the company raises when it binds the value.
\<close>

theorem post_products_counterexample:
  "9223372036854775808 \<notin> set (map c_id (companies acme_store))
   \<and> post_products 9 (widget_body 9223372036854775808) acme_store
     = (Inl (Unhandled ''OverflowError''), acme_store)"
  by (simp add: post_products_def validate_product_create_def widget_body_def valid_str_def
      valid_literal_def valid_int_def PRICING_MODELS_def create_product_def int_fits_def
      INT64_MAX_def acme_store_def acme_row_def)

text \<open>
  C8, amended. For a schema-valid product-create request (so with \<open>company_id > 0\<close>) whose
  \<open>company_id\<close> the store can bind (at most 2^63 - 1): when it is the id of no stored
  company, POST /products fails with HTTP 400 and the store is unchanged; when it is the id
  of a stored company, the product is created with 201: the store gains exactly the
  returned row at the end of the product table, owned by that company, with the request's
  fields.
\<close>

theorem post_products_requires_company:
  assumes "validate_product_create r = Inr pc"
    and "int_fits (pc_company_id pc)"
  shows "0 < pc_company_id pc
   \<and> (pc_company_id pc \<notin> set (map c_id (companies s)) \<longrightarrow>
      post_products now r s
        = (Inl (HTTPException 400 (CompanyDoesNotExist (pc_company_id pc))), s))
   \<and> (pc_company_id pc \<in> set (map c_id (companies s)) \<longrightarrow>
      (\<exists>row. post_products now r s = (Inr (201, row), s\<lparr>products := products s @ [row]\<rparr>)
         \<and> p_company_id row = pc_company_id pc
         \<and> product_fields row = product_base.truncate pc
         \<and> p_created_at row = now
         \<and> p_id row \<notin> set (map p_id (products s))))"
proof (intro conjI impI)
  show "0 < pc_company_id pc"
    using validate_product_create_Inr[OF assms(1)] by simp
  have p: "post_products now r s = create_product now pc s"
    by (simp add: post_products_def assms(1))
  {
    assume "pc_company_id pc \<notin> set (map c_id (companies s))"
    then have "find_company (pc_company_id pc) s = None"
      using find_company_None by blast
    then show "post_products now r s
        = (Inl (HTTPException 400 (CompanyDoesNotExist (pc_company_id pc))), s)"
      unfolding p using assms(2) by (simp add: create_product_def)
  }
  {
    assume "pc_company_id pc \<in> set (map c_id (companies s))"
    then have "find_company (pc_company_id pc) s \<noteq> None"
      using find_company_None by blast
    then obtain c where c: "find_company (pc_company_id pc) s = Some c" by auto
    show "\<exists>row. post_products now r s = (Inr (201, row), s\<lparr>products := products s @ [row]\<rparr>)
         \<and> p_company_id row = pc_company_id pc
         \<and> product_fields row = product_base.truncate pc
         \<and> p_created_at row = now
         \<and> p_id row \<notin> set (map p_id (products s))"
      unfolding p using next_id_fresh[of "map p_id (products s)"] assms(2)
      by (simp add: create_product_def c add_product_def Let_def product_fields_def
          product_base.truncate_def)
  }
qed

theorem post_products_requires_company_witness:
  "post_products 9 (widget_body 99999) acme_store
     = (Inl (HTTPException 400 (CompanyDoesNotExist 99999)), acme_store)
   \<and> post_products 9 (widget_body 1) acme_store
     = (Inr (201,
          \<lparr>p_id = 2, p_company_id = 1, p_name = ''Widget'', p_description = ''A widget'',
           p_target_audience = ''Engineers'', p_key_features = ''Fast'',
           p_pricing_model = ''Free'', p_created_at = 9\<rparr>),
        \<lparr>companies = [acme_row],
         products =
           [widget_row,
            \<lparr>p_id = 2, p_company_id = 1, p_name = ''Widget'', p_description = ''A widget'',
             p_target_audience = ''Engineers'', p_key_features = ''Fast'',
             p_pricing_model = ''Free'', p_created_at = 9\<rparr>]\<rparr>)"
proof -
  have v: "validate_product_create (widget_body cid)
      = (if 0 < cid then Inr (product_base.extend widget \<lparr>pc_company_id = cid\<rparr>)
         else Inl (RequestValidationError [''company_id'']))" for cid
    by (simp add: validate_product_create_def product_errors_def field_error_def
        widget_body_def widget_def valid_str_def valid_literal_def valid_int_def
        PRICING_MODELS_def product_base.extend_def)
  have v1: "validate_product_create (widget_body 99999)
      = Inr (product_base.extend widget \<lparr>pc_company_id = 99999\<rparr>)"
    by (simp add: v)
  have v2: "validate_product_create (widget_body 1)
      = Inr (product_base.extend widget \<lparr>pc_company_id = 1\<rparr>)"
    by (simp add: v)
  have f: "int_fits (pc_company_id (product_base.extend widget \<lparr>pc_company_id = 99999\<rparr>))"
    "int_fits (pc_company_id (product_base.extend widget \<lparr>pc_company_id = 1\<rparr>))"
    by (simp_all add: int_fits_def INT64_MAX_def product_base.extend_def)
  have m: "pc_company_id (product_base.extend widget \<lparr>pc_company_id = 99999\<rparr>)
      \<notin> set (map c_id (companies acme_store))"
    by (simp add: product_base.extend_def acme_store_def acme_row_def)
  from post_products_requires_company [OF v1 f(1), of acme_store 9] m
  have e1: "post_products 9 (widget_body 99999) acme_store
     = (Inl (HTTPException 400 (CompanyDoesNotExist 99999)), acme_store)"
    by (simp add: product_base.extend_def)
  have i: "next_id [1] = 2"
    by (simp add: next_id_def)
  have c: "create_product 9 (product_base.extend widget \<lparr>pc_company_id = 1\<rparr>) acme_store
     = (Inr (201,
          \<lparr>p_id = 2, p_company_id = 1, p_name = ''Widget'', p_description = ''A widget'',
           p_target_audience = ''Engineers'', p_key_features = ''Fast'',
           p_pricing_model = ''Free'', p_created_at = 9\<rparr>),
        \<lparr>companies = [acme_row],
         products =
           [widget_row,
            \<lparr>p_id = 2, p_company_id = 1, p_name = ''Widget'', p_description = ''A widget'',
             p_target_audience = ''Engineers'', p_key_features = ''Fast'',
             p_pricing_model = ''Free'', p_created_at = 9\<rparr>]\<rparr>)"
    using i by (simp add: create_product_def find_company_def add_product_def acme_store_def
        acme_row_def widget_row_def widget_def product_base.extend_def int_fits_def
        INT64_MAX_def Let_def)
  have "post_products 9 (widget_body 1) acme_store
      = create_product 9 (product_base.extend widget \<lparr>pc_company_id = 1\<rparr>) acme_store"
    unfolding post_products_def v2 by simp
  with c e1 show ?thesis by simp
qed

section \<open>Renaming a company to its own name in another letter case\<close>

text \<open>
  C10. When the company with the requested id exists and the request's name differs from
  its stored name but is equal to it under case-insensitive comparison, \<open>update_company\<close>
  fails with HTTP 400 (duplicate name) and the store is unchanged, whatever the other
  companies are: the guard compares the names as they are, the lookup compares them
  lower-cased and finds the company itself.
\<close>

theorem update_company_own_name_other_case:
  assumes "find_company cid s = Some r"
    and "b_name c \<noteq> c_name r"
    and "lower (b_name c) = lower (c_name r)"
  shows "update_company cid c s = (Inl (HTTPException 400 (CompanyNameExists (b_name c))), s)"
proof -
  have "r \<in> set (companies s)"
    using assms(1) by (simp add: find_company_Some)
  then have "find_by_name_ci (b_name c) s \<noteq> None"
    using assms(3) by (auto simp: find_by_name_ci_None)
  then show ?thesis
    using assms(1,2) by (simp add: update_company_def)
qed

theorem update_company_own_name_other_case_witness:
  "update_company 1 (acme\<lparr>b_name := ''ACME''\<rparr>) acme_store
     = (Inl (HTTPException 400 (CompanyNameExists ''ACME'')), acme_store)"
  using update_company_own_name_other_case [of 1 acme_store acme_row "acme\<lparr>b_name := ''ACME''\<rparr>"]
  by (simp add: find_company_def acme_store_def acme_row_def acme_def lower_samples)

section \<open>Updating a company\<close>

lemma validate_company_Inr:
  assumes "validate_company r = Inr c"
  shows "r_name r = Some (b_name c) \<and> r_tagline r = Some (b_tagline c)
       \<and> r_description r = Some (b_description c) \<and> r_industry r = Some (b_industry c)
       \<and> r_founded_year r = Some (b_founded_year c)
       \<and> r_employee_count r = Some (b_employee_count c)
       \<and> r_headquarters r = Some (b_headquarters c)
       \<and> r_website_url r = b_website_url c"
  using assms
  by (auto simp: validate_company_def valid_str_def valid_literal_def valid_int_def
      valid_opt_str_def Let_def split: option.splits if_splits)

lemma validate_company_missing:
  assumes "r_name r = None \<or> r_tagline r = None \<or> r_description r = None
     \<or> r_industry r = None \<or> r_founded_year r = None \<or> r_employee_count r = None
     \<or> r_headquarters r = None"
  shows "validate_company r = Inl (RequestValidationError (company_errors r))"
  using assms
  by (auto simp: validate_company_def valid_str_def valid_literal_def valid_int_def Let_def
      split: option.splits)

lemma company_errors_missing:
  "(r_name r = None \<longrightarrow> ''name'' \<in> set (company_errors r))
   \<and> (r_tagline r = None \<longrightarrow> ''tagline'' \<in> set (company_errors r))
   \<and> (r_description r = None \<longrightarrow> ''description'' \<in> set (company_errors r))
   \<and> (r_industry r = None \<longrightarrow> ''industry'' \<in> set (company_errors r))
   \<and> (r_founded_year r = None \<longrightarrow> ''founded_year'' \<in> set (company_errors r))
   \<and> (r_employee_count r = None \<longrightarrow> ''employee_count'' \<in> set (company_errors r))
   \<and> (r_headquarters r = None \<longrightarrow> ''headquarters'' \<in> set (company_errors r))"
  by (simp add: company_errors_def field_error_def valid_str_def valid_literal_def valid_int_def)

lemma update_company_Inr:
  assumes "update_company cid c s = (Inr (st, row), s')"
  shows "st = 200 \<and> (\<exists>old. find_company cid s = Some old \<and> row = set_fields c old)
    \<and> s' = s\<lparr>companies := map (\<lambda>r. if c_id r = cid then set_fields c r else r) (companies s)\<rparr>"
  using assms
  by (auto simp: update_company_def split: option.splits if_splits)

lemma find_map_upd:
  "find (\<lambda>r. c_id r = cid) (map (\<lambda>r. if c_id r = cid then set_fields c r else r) xs)
     = map_option (set_fields c) (find (\<lambda>r. c_id r = cid) xs)"
  by (induction xs) (auto simp: set_fields_def)

text \<open>
  C7. Update is full-record replacement. A PUT body in which a required base field (name,
  tagline, description, industry, founded_year, employee_count, headquarters) is absent is
  rejected by validation, with that field among the reported ones, and the store is
  unchanged: the old value is not kept silently. When the update succeeds, the answer is
  200, the stored row with the requested id carries exactly the body's base fields, its
  id and created_at are those it had, the ids and created_at of every row are unchanged,
  every row with another id is unchanged, and so is the product table.
\<close>

theorem put_company_full_replacement:
  "((r_name r = None \<or> r_tagline r = None \<or> r_description r = None
       \<or> r_industry r = None \<or> r_founded_year r = None \<or> r_employee_count r = None
       \<or> r_headquarters r = None) \<longrightarrow>
      put_company cid r s = (Inl (RequestValidationError (company_errors r)), s)
      \<and> company_errors r \<noteq> []
      \<and> (r_name r = None \<longrightarrow> ''name'' \<in> set (company_errors r))
      \<and> (r_tagline r = None \<longrightarrow> ''tagline'' \<in> set (company_errors r))
      \<and> (r_description r = None \<longrightarrow> ''description'' \<in> set (company_errors r))
      \<and> (r_industry r = None \<longrightarrow> ''industry'' \<in> set (company_errors r))
      \<and> (r_founded_year r = None \<longrightarrow> ''founded_year'' \<in> set (company_errors r))
      \<and> (r_employee_count r = None \<longrightarrow> ''employee_count'' \<in> set (company_errors r))
      \<and> (r_headquarters r = None \<longrightarrow> ''headquarters'' \<in> set (company_errors r)))
   \<and> (put_company cid r s = (Inr (st, row), s') \<longrightarrow>
      st = 200
      \<and> (\<exists>old. find_company cid s = Some old
            \<and> c_id row = c_id old \<and> c_created_at row = c_created_at old)
      \<and> raw_of (row_fields row) = r
      \<and> find_company cid s' = Some row
      \<and> map c_id (companies s') = map c_id (companies s)
      \<and> map c_created_at (companies s') = map c_created_at (companies s)
      \<and> (\<forall>i < length (companies s). c_id (companies s ! i) \<noteq> cid
            \<longrightarrow> companies s' ! i = companies s ! i)
      \<and> products s' = products s)"
proof (intro conjI impI)
  assume m: "r_name r = None \<or> r_tagline r = None \<or> r_description r = None
       \<or> r_industry r = None \<or> r_founded_year r = None \<or> r_employee_count r = None
       \<or> r_headquarters r = None"
  show "put_company cid r s = (Inl (RequestValidationError (company_errors r)), s)"
    by (simp add: put_company_def validate_company_missing[OF m])
  show "company_errors r \<noteq> []"
    using m company_errors_missing[of r] by auto
next
  assume ok: "put_company cid r s = (Inr (st, row), s')"
  then obtain c where v: "validate_company r = Inr c"
    and u: "update_company cid c s = (Inr (st, row), s')"
    by (auto simp: put_company_def split: sum.splits)
  note f = validate_company_Inr[OF v]
  from update_company_Inr[OF u] obtain old where
    st: "st = 200" and old: "find_company cid s = Some old" and row: "row = set_fields c old"
    and s': "s' = s\<lparr>companies := map (\<lambda>r. if c_id r = cid then set_fields c r else r) (companies s)\<rparr>"
    by blast
  show "st = 200" by (rule st)
  show "\<exists>old. find_company cid s = Some old
            \<and> c_id row = c_id old \<and> c_created_at row = c_created_at old"
    using old row by (simp add: set_fields_def)
  show "raw_of (row_fields row) = r"
    using f row by (simp add: raw_of_def row_fields_def set_fields_def)
  show "find_company cid s' = Some row"
    using old row s' by (simp add: find_company_def find_map_upd)
  show "map c_id (companies s') = map c_id (companies s)"
    using s' by (simp add: set_fields_def comp_def if_distrib cong: if_cong)
  show "map c_created_at (companies s') = map c_created_at (companies s)"
    using s' by (simp add: set_fields_def comp_def if_distrib cong: if_cong)
  show "\<forall>i < length (companies s). c_id (companies s ! i) \<noteq> cid
            \<longrightarrow> companies s' ! i = companies s ! i"
    using s' by simp
  show "products s' = products s"
    using s' by simp
qed (use company_errors_missing[of r] in auto)

theorem put_company_full_replacement_witness:
  "put_company 1 ((raw_of acme)\<lparr>r_tagline := None\<rparr>) acme_store
     = (Inl (RequestValidationError [''tagline'']), acme_store)
   \<and> put_company 1 (raw_of (acme\<lparr>b_tagline := ''Moon''\<rparr>)) acme_store
     = (Inr (200, acme_row\<lparr>c_tagline := ''Moon''\<rparr>),
        \<lparr>companies = [acme_row\<lparr>c_tagline := ''Moon''\<rparr>], products = [widget_row]\<rparr>)
   \<and> c_id (acme_row\<lparr>c_tagline := ''Moon''\<rparr>) = 1
   \<and> c_created_at (acme_row\<lparr>c_tagline := ''Moon''\<rparr>) = 5"
proof -
  have e: "put_company 1 (raw_of (acme\<lparr>b_tagline := ''Moon''\<rparr>)) acme_store
     = (Inr (200, acme_row\<lparr>c_tagline := ''Moon''\<rparr>),
        \<lparr>companies = [acme_row\<lparr>c_tagline := ''Moon''\<rparr>], products = [widget_row]\<rparr>)"
    by (simp add: put_company_def validate_company_def raw_of_def acme_def valid_str_def
        valid_literal_def valid_int_def valid_opt_str_def INDUSTRIES_def update_company_def
        find_company_def acme_store_def acme_row_def set_fields_def)
  have m: "company_errors ((raw_of acme)\<lparr>r_tagline := None\<rparr>) = [''tagline'']"
    by (simp add: company_errors_def field_error_def raw_of_def acme_def valid_str_def
        valid_literal_def valid_int_def valid_opt_str_def INDUSTRIES_def)
  show ?thesis
    using put_company_full_replacement
        [of "(raw_of acme)\<lparr>r_tagline := None\<rparr>" 1 acme_store 200
          "acme_row\<lparr>c_tagline := ''Moon''\<rparr>" "acme_store"]
      put_company_full_replacement
        [of "raw_of (acme\<lparr>b_tagline := ''Moon''\<rparr>)" 1 acme_store 200
          "acme_row\<lparr>c_tagline := ''Moon''\<rparr>"
          "\<lparr>companies = [acme_row\<lparr>c_tagline := ''Moon''\<rparr>], products = [widget_row]\<rparr>"]
      e m
    by (simp add: acme_row_def)
qed

section \<open>Bulk loader: the seed file\<close>

text \<open>
  C4 does not hold of the code. A seed file that holds valid JSON which is not an object
  (an array, say) is not parseable as the expected structure, and the load does not
  answer 400: the \<^verbatim>\<open>AttributeError\<close> of \<^verbatim>\<open>data.get\<close> leaves the handler,
  whose \<^verbatim>\<open>try\<close> catches only \<^verbatim>\<open>FileNotFoundError\<close> and
  \<^verbatim>\<open>json.JSONDecodeError\<close> around the read.
\<close>

theorem load_data_non_object_not_400:
  "fst (load_data_from_json 3 (Loaded NotAnObject) acme_store)
     = Inl (Unhandled ''AttributeError'')
   \<and> fst (load_data_from_json 3 (Loaded NotAnObject) acme_store)
     \<noteq> Inl (HTTPException 400 InvalidJSON)"
  by (simp add: load_data_from_json_def)

section \<open>Bulk loader: no validation\<close>

text \<open>
  C3 does not hold of the code. The loader builds the rows straight from the entries of
  the seed document; nothing is checked against the field contracts. Loading one entry
  whose industry is \<open>Crypto\<close>, with a product whose pricing model is \<open>Barter\<close>, into the
  empty store succeeds with \<open>loaded = 1\<close> and stores both rows, although neither value
  is in its closed set and the company schema rejects the same fields.
\<close>

theorem load_data_inserts_unvalidated:
  "load_data_from_json 3 (Loaded (Object (Some [crypto_entry]))) empty_store
     = (Inr (200, \<lparr>loaded = 1, skipped = 0, total_count = 1\<rparr>),
        \<lparr>companies =
           [\<lparr>c_id = 1, c_name = ''Bolt'', c_tagline = ''Coins'', c_description = ''Mints coins'',
             c_industry = ''Crypto'', c_founded_year = 2021, c_employee_count = 3,
             c_headquarters = ''Oslo, Norway'', c_website_url = None, c_created_at = 3\<rparr>],
         products =
           [\<lparr>p_id = 1, p_company_id = 1, p_name = ''Mint'', p_description = ''A mint'',
             p_target_audience = ''Traders'', p_key_features = ''Shiny'',
             p_pricing_model = ''Barter'', p_created_at = 3\<rparr>]\<rparr>)
   \<and> ''Crypto'' \<notin> set INDUSTRIES \<and> ''Barter'' \<notin> set PRICING_MODELS
   \<and> validate_company (raw_of crypto_entry) = Inl (RequestValidationError [''industry''])"
  by (simp add: load_data_from_json_def find_by_name_ci_def insert_company_def
      add_product_def next_id_def empty_store_def crypto_entry_def INDUSTRIES_def
      PRICING_MODELS_def validate_company_def raw_of_def company_errors_def field_error_def
      valid_str_def valid_literal_def valid_int_def valid_opt_str_def Let_def)

section \<open>The products a load appends\<close>

lemma fold_add_product:
  "\<exists>newp. fold (add_product now cid) (pds :: product_base list) s = s\<lparr>products := products s @ newp\<rparr>
     \<and> map (\<lambda>p. (p_company_id p, product_fields p)) newp = map (\<lambda>pd. (cid, pd)) pds"
proof (induction pds arbitrary: s)
  case Nil
  then show ?case by simp
next
  case (Cons pd pds)
  let ?row = "\<lparr>p_id = next_id (map p_id (products s)), p_company_id = cid, p_name = pb_name pd,
           p_description = pb_description pd, p_target_audience = pb_target_audience pd,
           p_key_features = pb_key_features pd, p_pricing_model = pb_pricing_model pd,
           p_created_at = now\<rparr>"
  have a: "add_product now cid pd s = s\<lparr>products := products s @ [?row]\<rparr>"
    by (simp add: add_product_def)
  from Cons.IH[of "add_product now cid pd s"] obtain newp where
    n: "fold (add_product now cid) pds (add_product now cid pd s)
          = (add_product now cid pd s)\<lparr>products := products (add_product now cid pd s) @ newp\<rparr>"
    and m: "map (\<lambda>p. (p_company_id p, product_fields p)) newp = map (\<lambda>pd. (cid, pd)) pds"
    by blast
  have "fold (add_product now cid) (pd # pds) s = s\<lparr>products := products s @ (?row # newp)\<rparr>"
    using n by (simp add: a)
  moreover have "map (\<lambda>p. (p_company_id p, product_fields p)) (?row # newp)
      = map (\<lambda>pd. (cid, pd)) (pd # pds)"
    using m by (simp add: product_fields_def)
  ultimately show ?case by blast
qed

section \<open>No orphan products\<close>

lemma no_orphans_mono:
  assumes "no_orphans s"
    and "set (map c_id (companies s)) \<subseteq> set (map c_id (companies s'))"
    and "set (map p_company_id (products s'))
           \<subseteq> set (map p_company_id (products s)) \<union> set (map c_id (companies s'))"
  shows "no_orphans s'"
  unfolding no_orphans_def
proof
  fix p
  assume "p \<in> set (products s')"
  then have "p_company_id p \<in> set (map p_company_id (products s'))"
    by simp
  with assms(3) have "p_company_id p \<in> set (map p_company_id (products s))
      \<or> p_company_id p \<in> set (map c_id (companies s'))"
    by blast
  then show "p_company_id p \<in> set (map c_id (companies s'))"
  proof
    assume "p_company_id p \<in> set (map p_company_id (products s))"
    then obtain q where "q \<in> set (products s)" and "p_company_id q = p_company_id p"
      by auto
    with assms(1) have "p_company_id p \<in> set (map c_id (companies s))"
      unfolding no_orphans_def by metis
    with assms(2) show ?thesis by blast
  qed
qed

lemma no_orphans_load_loop:
  assumes "no_orphans s" and "load_loop now cs s l k = Inr (s', l', k')"
  shows "no_orphans s'"
  using assms
proof (induction cs arbitrary: s l k)
  case Nil
  then show ?case by simp
next
  case (Cons cd cs)
  show ?case
  proof (cases "find_by_name_ci (b_name cd) s")
    case (Some e)
    then show ?thesis using Cons by simp
  next
    case None
    from insert_company_ok[OF None, of now] obtain row where
      i: "insert_company now cd s = Inr (row, s\<lparr>companies := companies s @ [row]\<rparr>)"
      by blast
    let ?s1 = "s\<lparr>companies := companies s @ [row]\<rparr>"
    obtain newp where
      f: "fold (add_product now (c_id row)) (sc_products cd) ?s1
          = ?s1\<lparr>products := products ?s1 @ newp\<rparr>"
      and m: "map (\<lambda>p. (p_company_id p, product_fields p)) newp
          = map (\<lambda>pd. (c_id row, pd)) (sc_products cd)"
      using fold_add_product[of now "c_id row" "sc_products cd" ?s1] by blast
    have "map fst (map (\<lambda>p. (p_company_id p, product_fields p)) newp)
        = map fst (map (\<lambda>pd. (c_id row, pd)) (sc_products cd))"
      by (simp only: m)
    then have "map p_company_id newp = map (\<lambda>pd. c_id row) (sc_products cd)"
      by (simp add: comp_def)
    then have "set (map p_company_id newp) \<subseteq> {c_id row}"
      by (simp only: set_map) auto
    then have inv: "no_orphans (?s1\<lparr>products := products ?s1 @ newp\<rparr>)"
      by (intro no_orphans_mono[OF Cons.prems(1)]) auto
    have "load_loop now cs (?s1\<lparr>products := products ?s1 @ newp\<rparr>) (l + 1) k = Inr (s', l', k')"
      using Cons.prems(2) by (simp add: None i f)
    then show ?thesis by (rule Cons.IH[OF inv])
  qed
qed

lemma no_orphans_load:
  assumes "no_orphans s"
  shows "no_orphans (snd (load_data_from_json now f s))"
proof (cases f)
  case FileNotFoundError
  then show ?thesis using assms by (simp add: load_data_from_json_def)
next
  case JSONDecodeError
  then show ?thesis using assms by (simp add: load_data_from_json_def)
next
  case (OtherError name)
  then show ?thesis using assms by (simp add: load_data_from_json_def)
next
  case (Loaded j)
  show ?thesis
  proof (cases j)
    case NotAnObject
    then show ?thesis using assms Loaded by (simp add: load_data_from_json_def)
  next
    case (NonListCompanies n)
    then show ?thesis
      using assms Loaded by (simp add: load_data_from_json_def split: option.splits nat.splits)
  next
    case (Object entry)
    define cs where "cs = (case entry of None \<Rightarrow> [] | Some cs \<Rightarrow> cs)"
    show ?thesis
    proof (cases "load_loop now cs s 0 0")
      case (Inl e)
      then show ?thesis
        using assms by (simp add: load_data_from_json_def Loaded Object cs_def)
    next
      case (Inr res)
      obtain s' l k where res: "res = (s', l, k)" by (cases res) auto
      have "no_orphans s'" using no_orphans_load_loop[OF assms] Inr res by simp
      then show ?thesis
        using Inr res by (simp add: load_data_from_json_def Loaded Object cs_def)
    qed
  qed
qed

lemma no_orphans_create_company:
  assumes "no_orphans s"
  shows "no_orphans (snd (create_company now c s))"
proof (cases "find_by_name_ci (b_name c) s")
  case (Some e)
  then show ?thesis using assms by (simp add: create_company_def)
next
  case None
  show ?thesis
  proof (cases "int_fits (b_founded_year c) \<and> int_fits (b_employee_count c)")
    case False
    then show ?thesis using assms by (auto simp: create_company_def None)
  next
    case True
    from insert_company_ok[OF None, of now] obtain row where
      i: "insert_company now c s = Inr (row, s\<lparr>companies := companies s @ [row]\<rparr>)"
      by blast
    have e: "snd (create_company now c s) = s\<lparr>companies := companies s @ [row]\<rparr>"
      using True by (simp add: create_company_def None i)
    show ?thesis
      unfolding e by (rule no_orphans_mono[OF assms]) auto
  qed
qed

lemma update_ids:
  "map c_id (map (\<lambda>r. if c_id r = cid then set_fields c r else r) xs) = map c_id xs"
  by (induction xs) (simp_all add: set_fields_def)

lemma no_orphans_update_company:
  assumes "no_orphans s"
  shows "no_orphans (snd (update_company cid c s))"
proof -
  let ?s' = "s\<lparr>companies := map (\<lambda>r. if c_id r = cid then set_fields c r else r) (companies s)\<rparr>"
  have "snd (update_company cid c s) = s \<or> snd (update_company cid c s) = ?s'"
    by (simp add: update_company_def split: option.splits)
  moreover have "no_orphans ?s'"
  proof -
    have 1: "companies ?s' = map (\<lambda>r. if c_id r = cid then set_fields c r else r) (companies s)"
      by simp
    have 2: "products ?s' = products s" by simp
    show ?thesis
      unfolding no_orphans_def 1 2 update_ids using assms unfolding no_orphans_def .
  qed
  ultimately show ?thesis using assms by auto
qed

lemma no_orphans_update_product:
  assumes "no_orphans s"
  shows "no_orphans (snd (update_product pid pb s))"
proof -
  let ?g = "\<lambda>r. if p_id r = pid then set_product_fields pb r else r"
  let ?s' = "s\<lparr>products := map ?g (products s)\<rparr>"
  have "snd (update_product pid pb s) = s \<or> snd (update_product pid pb s) = ?s'"
    by (simp add: update_product_def split: option.splits)
  moreover have "no_orphans ?s'"
    unfolding no_orphans_def
  proof
    fix p
    assume "p \<in> set (products ?s')"
    then obtain q where q: "q \<in> set (products s)" and p: "p = ?g q" by auto
    have "p_company_id p = p_company_id q"
      unfolding p by (simp add: set_product_fields_def)
    then show "p_company_id p \<in> set (map c_id (companies ?s'))"
      using assms q by (simp add: no_orphans_def)
  qed
  ultimately show ?thesis using assms by auto
qed

lemma no_orphans_delete_product:
  assumes "no_orphans s"
  shows "no_orphans (snd (delete_product pid s))"
proof -
  let ?s' = "s\<lparr>products := filter (\<lambda>p. p_id p \<noteq> pid) (products s)\<rparr>"
  have "snd (delete_product pid s) = s \<or> snd (delete_product pid s) = ?s'"
    by (simp add: delete_product_def split: option.splits)
  moreover have "no_orphans ?s'"
    using assms by (simp add: no_orphans_def)
  ultimately show ?thesis using assms by auto
qed

lemma no_orphans_create_product:
  assumes "no_orphans s"
  shows "no_orphans (snd (create_product now pc s))"
proof (cases "int_fits (pc_company_id pc)")
  case False
  then show ?thesis using assms by (simp add: create_product_def)
next
  case True
  show ?thesis
  proof (cases "find_company (pc_company_id pc) s")
    case None
    then show ?thesis using assms True by (simp add: create_product_def)
  next
    case (Some d)
    then have m: "pc_company_id pc \<in> set (map c_id (companies s))"
      using find_company_None[of "pc_company_id pc" s] by simp
    have e: "snd (create_product now pc s) = add_product now (pc_company_id pc) pc s"
      using True by (simp add: create_product_def Some Let_def)
    show ?thesis
      unfolding e
    proof (rule no_orphans_mono[OF assms])
      show "set (map c_id (companies s))
          \<subseteq> set (map c_id (companies (add_product now (pc_company_id pc) pc s)))"
        by (simp add: add_product_def)
      show "set (map p_company_id (products (add_product now (pc_company_id pc) pc s)))
          \<subseteq> set (map p_company_id (products s))
            \<union> set (map c_id (companies (add_product now (pc_company_id pc) pc s)))"
        using m by (simp add: add_product_def)
    qed
  qed
qed

lemma no_orphans_delete_company:
  assumes "no_orphans s"
  shows "no_orphans (snd (delete_company cid s))"
proof (cases "find_company cid s")
  case None
  then show ?thesis using assms by (simp add: delete_company_def)
next
  case (Some d)
  then have d: "c_id d = cid" by (simp add: find_company_Some)
  have e: "snd (delete_company cid s)
      = s\<lparr>companies := filter (\<lambda>r. c_id r \<noteq> cid) (companies s),
          products := filter (\<lambda>p. p_id p \<notin> set (map p_id (filter (\<lambda>p. p_company_id p = cid) (products s)))) (products s)\<rparr>"
    by (simp add: delete_company_def Some d Let_def)
  show ?thesis
    unfolding e no_orphans_def
  proof
    fix p
    assume "p \<in> set (products (s\<lparr>companies := filter (\<lambda>r. c_id r \<noteq> cid) (companies s),
          products := filter (\<lambda>p. p_id p \<notin> set (map p_id (filter (\<lambda>p. p_company_id p = cid) (products s)))) (products s)\<rparr>))"
    then have p: "p \<in> set (products s)"
      and n: "p_id p \<notin> set (map p_id (filter (\<lambda>p. p_company_id p = cid) (products s)))"
      by simp_all
    have "p_company_id p \<noteq> cid"
    proof
      assume "p_company_id p = cid"
      then have "p \<in> set (filter (\<lambda>p. p_company_id p = cid) (products s))" using p by simp
      then have "p_id p \<in> set (map p_id (filter (\<lambda>p. p_company_id p = cid) (products s)))"
        by (simp only: set_map) (rule imageI)
      then show False using n by simp
    qed
    moreover have "p_company_id p \<in> set (map c_id (companies s))"
      using assms p by (simp add: no_orphans_def)
    ultimately show "p_company_id p \<in> set (map c_id (companies (s\<lparr>companies := filter (\<lambda>r. c_id r \<noteq> cid) (companies s),
          products := filter (\<lambda>p. p_id p \<notin> set (map p_id (filter (\<lambda>p. p_company_id p = cid) (products s)))) (products s)\<rparr>)))"
      by auto
  qed
qed

lemma no_orphans_apply_request:
  "no_orphans s \<Longrightarrow> no_orphans (apply_request now req s)"
  by (cases req)
    (simp_all add: no_orphans_load no_orphans_create_company no_orphans_update_company
      no_orphans_delete_company no_orphans_create_product no_orphans_update_product
      no_orphans_delete_product)

lemma no_orphans_run:
  "no_orphans s \<Longrightarrow> no_orphans (run reqs s)"
  by (induction reqs arbitrary: s) (auto simp: no_orphans_apply_request)

lemma delete_company_found:
  assumes "find_company cid s = Some d"
  shows "delete_company cid s = (Inr 204,
      s\<lparr>companies := filter (\<lambda>r. c_id r \<noteq> cid) (companies s),
        products := filter (\<lambda>p. p_id p \<notin> set (map p_id (filter (\<lambda>p. p_company_id p = cid) (products s)))) (products s)\<rparr>)"
proof -
  have "c_id d = cid" using assms by (simp add: find_company_Some)
  then show ?thesis by (simp add: delete_company_def assms Let_def)
qed

lemma filter_owned_distinct:
  assumes "distinct (map p_id ps)"
  shows "filter (\<lambda>p. p_id p \<notin> set (map p_id (filter (\<lambda>p. p_company_id p = cid) ps))) ps
       = filter (\<lambda>p. p_company_id p \<noteq> cid) ps"
proof (rule filter_cong[OF refl])
  fix p
  assume p: "p \<in> set ps"
  show "(p_id p \<notin> set (map p_id (filter (\<lambda>p. p_company_id p = cid) ps))) = (p_company_id p \<noteq> cid)"
  proof
    assume n: "p_id p \<notin> set (map p_id (filter (\<lambda>p. p_company_id p = cid) ps))"
    show "p_company_id p \<noteq> cid"
    proof
      assume "p_company_id p = cid"
      then have "p \<in> set (filter (\<lambda>p. p_company_id p = cid) ps)" using p by simp
      then have "p_id p \<in> p_id ` set (filter (\<lambda>p. p_company_id p = cid) ps)" by (rule imageI)
      then show False using n by simp
    qed
  next
    assume o: "p_company_id p \<noteq> cid"
    show "p_id p \<notin> set (map p_id (filter (\<lambda>p. p_company_id p = cid) ps))"
    proof
      assume "p_id p \<in> set (map p_id (filter (\<lambda>p. p_company_id p = cid) ps))"
      then obtain q where q: "q \<in> set ps" "p_company_id q = cid" "p_id q = p_id p" by auto
      have "inj_on p_id (set ps)" using assms by (simp add: distinct_map)
      then have "q = p" using q(1,3) p by (auto dest: inj_onD)
      then show False using q(2) o by simp
    qed
  qed
qed

text \<open>
  C6. Deleting a stored company answers 204 and removes, in the one operation, the company
  row and every product it owns: afterwards \<open>get_company\<close> on its id is a 404, and so is
  \<open>get_product\<close> on the id of each product that had this company as owner; the other
  companies stay, and (product ids being distinct) exactly the products of other owners
  stay. No operation creates an orphan: if every product's \<open>company_id\<close> is the id of a
  stored company before a request, it is so after it, and it is so after any sequence of
  requests from the empty store.
\<close>

theorem delete_company_cascade_no_orphans:
  "(cid \<in> set (map c_id (companies s)) \<longrightarrow>
      (\<exists>s'. delete_company cid s = (Inr 204, s')
         \<and> get_company cid s' = Inl (HTTPException 404 (CompanyNotFound cid))
         \<and> (\<forall>p \<in> set (products s). p_company_id p = cid \<longrightarrow>
               get_product (p_id p) s' = Inl (HTTPException 404 (ProductNotFound (p_id p))))
         \<and> companies s' = filter (\<lambda>r. c_id r \<noteq> cid) (companies s)
         \<and> (distinct (map p_id (products s)) \<longrightarrow>
               products s' = filter (\<lambda>p. p_company_id p \<noteq> cid) (products s))))
   \<and> (no_orphans s \<longrightarrow> no_orphans (apply_request now req s))
   \<and> no_orphans (run reqs empty_store)"
proof (intro conjI impI)
  assume "cid \<in> set (map c_id (companies s))"
  then have "find_company cid s \<noteq> None" using find_company_None by blast
  then obtain d where d: "find_company cid s = Some d" by auto
  let ?s' = "s\<lparr>companies := filter (\<lambda>r. c_id r \<noteq> cid) (companies s),
        products := filter (\<lambda>p. p_id p \<notin> set (map p_id (filter (\<lambda>p. p_company_id p = cid) (products s)))) (products s)\<rparr>"
  have 1: "delete_company cid s = (Inr 204, ?s')" by (rule delete_company_found[OF d])
  have "cid \<notin> set (map c_id (companies ?s'))" by auto
  then have "find_company cid ?s' = None" using find_company_None by blast
  then have 2: "get_company cid ?s' = Inl (HTTPException 404 (CompanyNotFound cid))"
    by (simp add: get_company_def)
  have 3: "\<forall>p \<in> set (products s). p_company_id p = cid \<longrightarrow>
               get_product (p_id p) ?s' = Inl (HTTPException 404 (ProductNotFound (p_id p)))"
  proof (intro ballI impI)
    fix p
    assume p: "p \<in> set (products s)" and o: "p_company_id p = cid"
    then have "p \<in> set (filter (\<lambda>p. p_company_id p = cid) (products s))" by simp
    then have "p_id p \<in> p_id ` set (filter (\<lambda>p. p_company_id p = cid) (products s))"
      by (rule imageI)
    then have "p_id p \<notin> set (map p_id (products ?s'))" by auto
    then have "find_product (p_id p) ?s' = None" using find_product_None by blast
    then show "get_product (p_id p) ?s' = Inl (HTTPException 404 (ProductNotFound (p_id p)))"
      by (simp add: get_product_def)
  qed
  have 4: "companies ?s' = filter (\<lambda>r. c_id r \<noteq> cid) (companies s)" by simp
  have 5: "distinct (map p_id (products s)) \<longrightarrow>
               products ?s' = filter (\<lambda>p. p_company_id p \<noteq> cid) (products s)"
  proof
    assume dd: "distinct (map p_id (products s))"
    have "products ?s' = filter (\<lambda>p. p_id p \<notin> set (map p_id (filter (\<lambda>p. p_company_id p = cid) (products s)))) (products s)"
      by simp
    also have "\<dots> = filter (\<lambda>p. p_company_id p \<noteq> cid) (products s)"
      by (rule filter_owned_distinct[OF dd])
    finally show "products ?s' = filter (\<lambda>p. p_company_id p \<noteq> cid) (products s)" .
  qed
  show "\<exists>s'. delete_company cid s = (Inr 204, s')
         \<and> get_company cid s' = Inl (HTTPException 404 (CompanyNotFound cid))
         \<and> (\<forall>p \<in> set (products s). p_company_id p = cid \<longrightarrow>
               get_product (p_id p) s' = Inl (HTTPException 404 (ProductNotFound (p_id p))))
         \<and> companies s' = filter (\<lambda>r. c_id r \<noteq> cid) (companies s)
         \<and> (distinct (map p_id (products s)) \<longrightarrow>
               products s' = filter (\<lambda>p. p_company_id p \<noteq> cid) (products s))"
    using 1 2 3 4 5 by blast
next
  assume "no_orphans s"
  then show "no_orphans (apply_request now req s)" by (rule no_orphans_apply_request)
next
  have "no_orphans empty_store" by (simp add: no_orphans_def empty_store_def)
  then show "no_orphans (run reqs empty_store)" by (rule no_orphans_run)
qed

theorem delete_company_cascade_no_orphans_witness:
  "delete_company 1 acme_store = (Inr 204, empty_store)
   \<and> get_company 1 empty_store = Inl (HTTPException 404 (CompanyNotFound 1))
   \<and> get_product 1 empty_store = Inl (HTTPException 404 (ProductNotFound 1))
   \<and> no_orphans acme_store
   \<and> no_orphans (apply_request 9 (DeleteCompany 1) acme_store)
   \<and> no_orphans (run [(5, CreateCompany acme), (6, DeleteCompany 1)] empty_store)"
proof -
  have d: "delete_company 1 acme_store = (Inr 204, empty_store)"
    by (simp add: delete_company_def find_company_def acme_store_def acme_row_def
        widget_row_def empty_store_def)
  have o: "no_orphans acme_store"
    by (simp add: no_orphans_def acme_store_def acme_row_def widget_row_def)
  show ?thesis
    using delete_company_cascade_no_orphans [of 1 acme_store 9 "DeleteCompany 1"
        "[(5, CreateCompany acme), (6, DeleteCompany 1)]"] d o
    by (auto simp: acme_store_def acme_row_def widget_row_def)
qed

section \<open>Bulk loader: document order, skips and counts\<close>





end
